theory Spec2Isabelle
  imports Main
begin

section \<open>JavaScript values of the goof3 compiler\<close>

text \<open>
  The compiler is written in JavaScript: every failure is an exception, which the model
  returns as a value. \<open>Error m\<close> is \<^verbatim>\<open>new Error(m)\<close>, with \<open>None\<close> for a message that
  was never passed (\<^verbatim>\<open>undefined\<close>, which the engine turns into the empty message).
  \<open>TypeError\<close> and \<open>ReferenceError\<close> are the engine's own errors (a call of something
  that is not a function, a property read on \<^verbatim>\<open>undefined\<close>, a free variable that was never
  declared); their texts are the engine's and carry no weight below.
  \<open>UndeclaredIdentifier\<close> and \<open>DuplicateDeclaration\<close> are the two failures of the
  symbol table.
\<close>

datatype jsError =
    Error "string option"
  | TypeError string
  | ReferenceError string
  | UndeclaredIdentifier string
  | DuplicateDeclaration string

definition message :: "jsError \<Rightarrow> string" where
  "message e = (case e of
      Error None \<Rightarrow> []
    | Error (Some m) \<Rightarrow> m
    | TypeError m \<Rightarrow> m
    | ReferenceError m \<Rightarrow> m
    | UndeclaredIdentifier m \<Rightarrow> m
    | DuplicateDeclaration m \<Rightarrow> m)"

text \<open>
  Modelled from the spec: the builtins module (\<^verbatim>\<open>IntType\<close>, \<^verbatim>\<open>FloatType\<close>,
  \<^verbatim>\<open>StringType\<close>, \<^verbatim>\<open>BoolType\<close>, \<^verbatim>\<open>NullType\<close>) is not among the sources; the spec
  gives the closed set of primitive types Int, Float, String, Bool, Null, taken here as
  five distinct objects, none of them an instance of \<^verbatim>\<open>RecordType\<close> or \<^verbatim>\<open>ArrayType\<close>.

  \<open>jstype\<close> is what a \<^verbatim>\<open>type\<close> field can hold. Before analysis it is the kind string
  of the source text (\<open>TString\<close>); \<^verbatim>\<open>getType\<close> replaces the known kind strings by the
  builtin objects. \<open>ArrayTypeInst a t\<close> is an instance of the class \<^verbatim>\<open>ArrayType\<close>, the
  object at address \<open>a\<close>, whose own \<^verbatim>\<open>type\<close> field holds \<open>t\<close>; \<open>RecordTypeInst\<close> is an
  instance of \<^verbatim>\<open>RecordType\<close> with its fields; \<open>ArrayTypeClass\<close> is the class
  \<^verbatim>\<open>ArrayType\<close> itself (a constructor function), which check.js compares types with;
  \<open>TUndefined\<close> is a field that was never set.
\<close>

datatype jstype =
    TUndefined
  | TString string
  | IntType
  | FloatType
  | StringType
  | BoolType
  | NullType
  | ArrayTypeClass
  | ArrayTypeInst nat jstype
  | RecordTypeInst nat "(string \<times> jstype) list"

text \<open>
  \<^verbatim>\<open>===\<close> on these values: strings compare by content, objects by identity (their
  address), whatever their fields hold at the moment.
\<close>

fun identity :: "jstype \<Rightarrow> jstype" where
  "identity (ArrayTypeInst a t) = ArrayTypeInst a TUndefined"
| "identity (RecordTypeInst a fs) = RecordTypeInst a []"
| "identity t = t"

definition strict_eq :: "jstype \<Rightarrow> jstype \<Rightarrow> bool" where
  "strict_eq s t = (identity s = identity t)"

text \<open>\<^verbatim>\<open>t.type\<close> for a type value \<open>t\<close>; reading a property of \<^verbatim>\<open>undefined\<close> throws.\<close>

fun type_of_type :: "jstype \<Rightarrow> jsError + jstype" where
  "type_of_type TUndefined = Inl (TypeError ''Cannot read properties of undefined (reading type)'')"
| "type_of_type (ArrayTypeInst a t) = Inr t"
| "type_of_type t = Inr TUndefined"

text \<open>\<^verbatim>\<open>t.constructor === RecordType\<close> and \<^verbatim>\<open>t instanceof ArrayType\<close>.\<close>

fun constructor_is_RecordType :: "jstype \<Rightarrow> jsError + bool" where
  "constructor_is_RecordType TUndefined =
     Inl (TypeError ''Cannot read properties of undefined (reading constructor)'')"
| "constructor_is_RecordType (RecordTypeInst a fs) = Inr True"
| "constructor_is_RecordType t = Inr False"

fun instanceof_ArrayType :: "jstype \<Rightarrow> bool" where
  "instanceof_ArrayType (ArrayTypeInst a t) = True"
| "instanceof_ArrayType t = False"

section \<open>The syntax tree\<close>

text \<open>
  Modelled from the spec: the classes of the ast module are not among the sources. The
  node variants are those the spec lists; each carries the fields that analyzer.js,
  check.js and javascript-generator.js read and write on it:

  \<^item> \<open>ArrayExpression type size elements\<close>
  \<^item> \<open>AssignmentStatement target source\<close>
  \<^item> \<open>BinaryExpression op left right type\<close>
  \<^item> \<open>CallExpression callee args\<close>: \<^verbatim>\<open>callee\<close> is the name until analysis replaces it
    by the declaration found in the context
  \<^item> \<open>Field addr id type value\<close>
  \<^item> \<open>ForStatement assignments test action body\<close>
  \<^item> \<open>Func addr id parameters body bodyContext\<close>: the analyzer guards both
    \<^verbatim>\<open>parameters\<close> and \<^verbatim>\<open>body\<close> against being absent
  \<^item> \<open>GifStatement tests consequents alternate\<close>
  \<^item> \<open>IdExp reference ref type\<close>: the analyzer resolves \<^verbatim>\<open>reference\<close>, while
    check.js reads \<^verbatim>\<open>ref\<close>
  \<^item> \<open>Literal type value\<close>, the value as the text it prints as
  \<^item> \<open>MemberExpression addr object property type\<close>: \<^verbatim>\<open>property\<close> is an index
    expression or a field name
  \<^item> \<open>Method addr id parameters body bodyContext\<close>
  \<^item> \<open>ObjectExp properties ObjContext\<close>
  \<^item> \<open>Parameter addr id type\<close>
  \<^item> \<open>ReturnStatement returnValue\<close>
  \<^item> \<open>ThrowStatement error\<close>
  \<^item> \<open>VariableDeclaration addr id type initializer readOnly\<close>
  \<^item> \<open>WhileStatement test body\<close>

  \<open>addr\<close> is the identity of the object, for the nodes that the generator uses as keys
  of its naming cache. A context kept on a node (\<^verbatim>\<open>bodyContext\<close>, \<^verbatim>\<open>ObjContext\<close>) is
  the address of that context in the store of contexts. A field that holds either a
  name or a node is a \<open>jsval\<close>.
\<close>

datatype node =
    ArrayExpression jstype node "node list"
  | AssignmentStatement node node
  | BinaryExpression string node node jstype
  | CallExpression jsval "node list"
  | Field nat string jstype node
  | ForStatement "node list" node node "node list"
  | Func nat string "node list option" "node list option" "nat option"
  | GifStatement "node list" "node list list" "node list option"
  | IdExp jsval jsval jstype
  | Literal jstype string
  | MemberExpression nat node jsval jstype
  | Method nat string "node list option" "node list option" "nat option"
  | ObjectExp "node list" "nat option"
  | Parameter nat string jstype
  | ReturnStatement node
  | ThrowStatement node
  | VariableDeclaration nat string jstype "node option" bool
  | WhileStatement node "node list"
and jsval =
    VUndefined
  | VString string
  | VNode node

text \<open>\<^verbatim>\<open>e.type\<close> for a node \<open>e\<close>: \<^verbatim>\<open>undefined\<close> on the variants without that field.\<close>

fun node_type :: "node \<Rightarrow> jstype" where
  "node_type (ArrayExpression t sz elements) = t"
| "node_type (BinaryExpression op left right t) = t"
| "node_type (Field a i t v) = t"
| "node_type (IdExp reference ref t) = t"
| "node_type (Literal t v) = t"
| "node_type (MemberExpression a object property t) = t"
| "node_type (Parameter a i t) = t"
| "node_type (VariableDeclaration a i t initializer ro) = t"
| "node_type n = TUndefined"

text \<open>\<^verbatim>\<open>d.readOnly\<close> as a condition: only a variable declaration carries the flag.\<close>

fun readOnly :: "node \<Rightarrow> bool" where
  "readOnly (VariableDeclaration a i t initializer ro) = ro"
| "readOnly n = False"

section \<open>The semantic checks (check.js)\<close>

definition doCheck :: "bool \<Rightarrow> string option \<Rightarrow> jsError + unit" where
  "doCheck condition msg = (if \<not> condition then Inl (Error msg) else Inr ())"

definition isArray :: "node \<Rightarrow> jsError + unit" where
  "isArray expression = doCheck (strict_eq (node_type expression) ArrayTypeClass) None"

text \<open>\<^verbatim>\<open>isArrayType(type)\<close> receives an \<^verbatim>\<open>ArrayType\<close> node and reads its \<^verbatim>\<open>type\<close> field.\<close>

definition isArrayType :: "jstype \<Rightarrow> jsError + unit" where
  "isArrayType type = (case type_of_type type of
      Inl e \<Rightarrow> Inl e
    | Inr t \<Rightarrow> doCheck (strict_eq t ArrayTypeClass) (Some ''Not an array type''))"

definition isInteger :: "node \<Rightarrow> jsError + unit" where
  "isInteger expression = doCheck (strict_eq (node_type expression) IntType) (Some ''Not an integer'')"

definition isNumber :: "node \<Rightarrow> jsError + unit" where
  "isNumber expression =
     doCheck (strict_eq (node_type expression) IntType \<or> strict_eq (node_type expression) FloatType)
       (Some ''Not a number'')"

definition isString :: "node \<Rightarrow> jsError + unit" where
  "isString expression = doCheck (strict_eq (node_type expression) StringType) (Some ''Not a string'')"

definition isIntegerOrString :: "node \<Rightarrow> jsError + unit" where
  "isIntegerOrString expression =
     doCheck (strict_eq (node_type expression) IntType \<or> strict_eq (node_type expression) StringType)
       (Some ''Not an integer or string'')"

text \<open>\<^verbatim>\<open>value.constructor === Func\<close>.\<close>

fun constructor_is_Func :: "node \<Rightarrow> bool" where
  "constructor_is_Func (Func a i ps b bc) = True"
| "constructor_is_Func n = False"

definition isFunction :: "node \<Rightarrow> jsError + unit" where
  "isFunction v = doCheck (constructor_is_Func v) (Some ''Not a function'')"

definition expressionsHaveTheSameType :: "node \<Rightarrow> node \<Rightarrow> jsError + unit" where
  "expressionsHaveTheSameType e1 e2 =
     doCheck (strict_eq (node_type e1) (node_type e2)) (Some ''Types must match exactly'')"

text \<open>
  \<^verbatim>\<open>isAssignableTo(expression, type)\<close>. The right operand of \<^verbatim>\<open>&&\<close> is evaluated only
  when the expression's type is \<^verbatim>\<open>NullType\<close>; it reads a property of \<^verbatim>\<open>type\<close>. The
  message is built with \<^verbatim>\<open>util.format\<close> of Node's library, the parameter \<open>fmt\<close>.
\<close>

definition isAssignableTo :: "(jstype \<Rightarrow> string) \<Rightarrow> node \<Rightarrow> jstype \<Rightarrow> jsError + unit" where
  "isAssignableTo fmt expression type =
     (let msg = ''Expression of type '' @ fmt (node_type expression)
                 @ '' not compatible with type '' @ fmt type
      in if strict_eq (node_type expression) NullType
         then (case constructor_is_RecordType type of
                 Inl e \<Rightarrow> Inl e
               | Inr r \<Rightarrow> doCheck (r \<or> strict_eq (node_type expression) type) (Some msg))
         else doCheck (strict_eq (node_type expression) type) (Some msg))"

text \<open>
  A rendering of type values for the examples below, in place of \<^verbatim>\<open>util.format\<close>: a
  string prints as itself, anything else by its name.
\<close>

fun type_name :: "jstype \<Rightarrow> string" where
  "type_name TUndefined = ''undefined''"
| "type_name (TString s) = s"
| "type_name IntType = ''IntType''"
| "type_name FloatType = ''FloatType''"
| "type_name StringType = ''StringType''"
| "type_name BoolType = ''BoolType''"
| "type_name NullType = ''NullType''"
| "type_name ArrayTypeClass = ''[class ArrayType]''"
| "type_name (ArrayTypeInst a t) = ''ArrayType''"
| "type_name (RecordTypeInst a fs) = ''RecordType''"

text \<open>
  \<^verbatim>\<open>isNotReadOnly(lvalue)\<close>: \<^verbatim>\<open>lvalue.constructor === IdExp && lvalue.ref.readOnly\<close>.
  The right operand is evaluated for an \<^verbatim>\<open>IdExp\<close> only, and reads the node's \<^verbatim>\<open>ref\<close>
  field: absent, the property read throws; a name has no \<^verbatim>\<open>readOnly\<close> property.
\<close>

fun constructor_is_IdExp :: "node \<Rightarrow> bool" where
  "constructor_is_IdExp (IdExp reference ref t) = True"
| "constructor_is_IdExp n = False"

fun ref_readOnly :: "node \<Rightarrow> jsError + bool" where
  "ref_readOnly (IdExp reference (VNode d) t) = Inr (readOnly d)"
| "ref_readOnly (IdExp reference (VString s) t) = Inr False"
| "ref_readOnly n = Inl (TypeError ''Cannot read properties of undefined (reading readOnly)'')"

definition isNotReadOnly :: "node \<Rightarrow> jsError + unit" where
  "isNotReadOnly lvalue =
     (if constructor_is_IdExp lvalue
      then (case ref_readOnly lvalue of
              Inl e \<Rightarrow> Inl e
            | Inr r \<Rightarrow> doCheck (\<not> r) (Some ''Assignment to read-only variable''))
      else doCheck True (Some ''Assignment to read-only variable''))"

definition fieldHasNotBeenUsed :: "string \<Rightarrow> string set \<Rightarrow> jsError + unit" where
  "fieldHasNotBeenUsed field usedFields =
     doCheck (field \<notin> usedFields) (Some (''Field '' @ field @ '' already declared''))"

text \<open>Numbers print in decimal inside a template literal.\<close>

definition digit_char :: "nat \<Rightarrow> char" where
  "digit_char d = ''0123456789'' ! d"

fun show_nat :: "nat \<Rightarrow> string" where
  "show_nat n = (if n < 10 then [digit_char n] else show_nat (n div 10) @ [digit_char (n mod 10)])"

declare show_nat.simps [simp del]

text \<open>
  \<^verbatim>\<open>legalArguments(args, params)\<close>: the arity first, then every argument against the
  type of the parameter at its position. \<^verbatim>\<open>params\<close> is the \<^verbatim>\<open>parameters\<close> field of
  the callee, absent on a function declared without one.
\<close>

fun each_isAssignableTo :: "(jstype \<Rightarrow> string) \<Rightarrow> node list \<Rightarrow> node list \<Rightarrow> jsError + unit" where
  "each_isAssignableTo fmt [] params = Inr ()"
| "each_isAssignableTo fmt (arg # args) [] =
     Inl (TypeError ''Cannot read properties of undefined (reading type)'')"
| "each_isAssignableTo fmt (arg # args) (p # params) =
     (case isAssignableTo fmt arg (node_type p) of
        Inl e \<Rightarrow> Inl e
      | Inr u \<Rightarrow> each_isAssignableTo fmt args params)"

definition legalArguments :: "(jstype \<Rightarrow> string) \<Rightarrow> node list \<Rightarrow> node list option \<Rightarrow> jsError + unit" where
  "legalArguments fmt args params =
     (case params of
        None \<Rightarrow> Inl (TypeError ''Cannot read properties of undefined (reading length)'')
      | Some ps \<Rightarrow>
          (case doCheck (length args = length ps)
                  (Some (''Expected '' @ show_nat (length ps) @ '' args in call, got ''
                         @ show_nat (length args))) of
             Inl e \<Rightarrow> Inl e
           | Inr u \<Rightarrow> each_isAssignableTo fmt args ps))"

definition noRecursiveTypeCyclesWithoutRecordTypes :: "jsError + unit" where
  "noRecursiveTypeCyclesWithoutRecordTypes = Inr ()"

text \<open>
  The analyzer calls \<^verbatim>\<open>check.isBoolean\<close> and \<^verbatim>\<open>check.isAssignment\<close>, which the
  object exported by check.js does not have: calling a property that is
  \<^verbatim>\<open>undefined\<close> throws a TypeError, whatever the argument.
\<close>

definition check_isBoolean :: "node \<Rightarrow> jsError + unit" where
  "check_isBoolean expression = Inl (TypeError ''check.isBoolean is not a function'')"

definition check_isAssignment :: "node \<Rightarrow> jsError + unit" where
  "check_isAssignment expression = Inl (TypeError ''check.isAssignment is not a function'')"

section \<open>The symbol table\<close>

text \<open>
  Modelled from the spec: the context module is not among the sources. A context maps
  declared names to their declaring nodes and has a link to its enclosing context and
  a tag for its kind. \<^verbatim>\<open>add\<close> binds a node's declared name in the current scope and
  fails with \<open>DuplicateDeclaration\<close> if that scope already binds the name;
  \<^verbatim>\<open>lookupValue\<close> searches the current scope, then the enclosing ones, and fails with
  \<open>UndeclaredIdentifier\<close> when they are exhausted; the three
  \<^verbatim>\<open>createChildContextFor...\<close> operations return a new, empty scope linked to the
  current one.

  Contexts are objects that the analyzer shares and mutates (a function is added to the
  enclosing scope while its body scope already exists; an object literal keeps its scope
  for later member lookups), so they live in a store: the context at address \<open>c\<close> is
  \<open>cs ! c\<close>, and a new context takes the next free address.
\<close>

datatype scope_kind = GlobalScope | LoopBody | FunctionBody | ObjectBody

record scope =
  parent :: "nat option"
  kind :: scope_kind
  valueMap :: "(string \<times> node) list"

type_synonym contexts = "scope list"

definition INITIAL :: contexts where
  "INITIAL = [\<lparr>parent = None, kind = GlobalScope, valueMap = []\<rparr>]"

definition createChildContext :: "scope_kind \<Rightarrow> nat \<Rightarrow> contexts \<Rightarrow> nat \<times> contexts" where
  "createChildContext k c cs = (length cs, cs @ [\<lparr>parent = Some c, kind = k, valueMap = []\<rparr>])"

definition createChildContextForLoop :: "nat \<Rightarrow> contexts \<Rightarrow> nat \<times> contexts" where
  "createChildContextForLoop = createChildContext LoopBody"

definition createChildContextForFunctionBody :: "nat \<Rightarrow> contexts \<Rightarrow> nat \<times> contexts" where
  "createChildContextForFunctionBody = createChildContext FunctionBody"

definition createChildContextForObject :: "nat \<Rightarrow> contexts \<Rightarrow> nat \<times> contexts" where
  "createChildContextForObject = createChildContext ObjectBody"

definition add :: "string \<Rightarrow> node \<Rightarrow> nat \<Rightarrow> contexts \<Rightarrow> jsError + contexts" where
  "add name d c cs =
     (if c < length cs
      then (if name \<in> fst ` set (valueMap (cs ! c))
            then Inl (DuplicateDeclaration name)
            else Inr (cs[c := (cs ! c)\<lparr>valueMap := (name, d) # valueMap (cs ! c)\<rparr>]))
      else Inl (TypeError ''Cannot read properties of undefined (reading add)''))"

text \<open>
  The key of a lookup is whatever the node holds: only a name can be bound. A parent
  link always points to a context created earlier, so the walk outwards ends.
\<close>

function lookupValue :: "jsval \<Rightarrow> nat \<Rightarrow> contexts \<Rightarrow> jsError + node" where
  "lookupValue key c cs =
     (if c < length cs
      then (case (case key of VString name \<Rightarrow> map_of (valueMap (cs ! c)) name | _ \<Rightarrow> None) of
              Some d \<Rightarrow> Inr d
            | None \<Rightarrow>
                (case parent (cs ! c) of
                   Some p \<Rightarrow>
                     (if p < c then lookupValue key p cs
                      else Inl (UndeclaredIdentifier
                                 (case key of VString name \<Rightarrow> name | _ \<Rightarrow> [])))
                 | None \<Rightarrow> Inl (UndeclaredIdentifier
                                 (case key of VString name \<Rightarrow> name | _ \<Rightarrow> []))))
      else Inl (TypeError ''Cannot read properties of undefined (reading lookupValue)''))"
  by pat_completeness auto
termination
  by (relation "measure (\<lambda>(key, c, cs). c)") auto

declare lookupValue.simps [simp del]

section \<open>The analyzer (analyzer.js)\<close>

fun getType :: "jstype \<Rightarrow> jstype" where
  "getType (TString typeString) =
     (if typeString = ''array_of_chars'' then StringType
      else if typeString = ''whole_number'' then IntType
      else if typeString = ''not_whole_number'' then FloatType
      else if typeString = ''true_or_false'' then BoolType
      else if typeString = ''temp'' then NullType
      else TString typeString)"
| "getType typeString = typeString"

text \<open>
  \<^verbatim>\<open>ArrayType.prototype.analyze\<close>, on the instance at address \<open>a\<close> whose \<^verbatim>\<open>type\<close>
  field holds \<open>t\<close>, and the call \<^verbatim>\<open>this.type.analyze()\<close> on whatever a node's
  \<^verbatim>\<open>type\<close> field holds: only an \<^verbatim>\<open>ArrayType\<close> instance has the method.
\<close>

definition ArrayType_analyze :: "nat \<Rightarrow> jstype \<Rightarrow> jsError + jstype" where
  "ArrayType_analyze a t =
     (case isArrayType (ArrayTypeInst a t) of
        Inl e \<Rightarrow> Inl e
      | Inr u \<Rightarrow> Inr (ArrayTypeInst a (getType t)))"

fun type_analyze :: "jstype \<Rightarrow> jsError + jstype" where
  "type_analyze (ArrayTypeInst a t) = ArrayType_analyze a t"
| "type_analyze TUndefined =
     Inl (TypeError ''Cannot read properties of undefined (reading analyze)'')"
| "type_analyze t = Inl (TypeError ''this.type.analyze is not a function'')"

text \<open>The four regular expressions that \<^verbatim>\<open>BinaryExpression.prototype.analyze\<close> tests
  the operator with: \<^verbatim>\<open>/[-+*/]/\<close>, \<^verbatim>\<open>/[<>]/\<close>, \<^verbatim>\<open>/\|\||&&/\<close> and \<^verbatim>\<open>/^[!=]/\<close>.\<close>

definition test_arithmetic :: "string \<Rightarrow> bool" where
  "test_arithmetic op = list_ex (\<lambda>c. c \<in> set ''-+*/'') op"

definition test_relational :: "string \<Rightarrow> bool" where
  "test_relational op = list_ex (\<lambda>c. c \<in> set ''<>'') op"

fun contains :: "string \<Rightarrow> string \<Rightarrow> bool" where
  "contains [] sub = (sub = [])"
| "contains (c # s) sub = (take (length sub) (c # s) = sub \<or> contains s sub)"

definition test_logical :: "string \<Rightarrow> bool" where
  "test_logical op = (contains op ''||'' \<or> contains op ''&&'')"

definition test_equality :: "string \<Rightarrow> bool" where
  "test_equality op = (case op of [] \<Rightarrow> False | c # s \<Rightarrow> c \<in> set ''!='')"

text \<open>
  \<^verbatim>\<open>IdExp.prototype.analyze\<close>; \<^verbatim>\<open>this.reference.type\<close> is the \<^verbatim>\<open>type\<close> field of the
  declaration found.
\<close>

definition IdExp_analyze :: "nat option \<Rightarrow> jsval \<Rightarrow> jsval \<Rightarrow> contexts \<Rightarrow> jsError + node \<times> contexts" where
  "IdExp_analyze context reference ref cs =
     (case context of
        None \<Rightarrow> Inl (TypeError ''Cannot read properties of undefined (reading lookupValue)'')
      | Some c \<Rightarrow>
          (case lookupValue reference c cs of
             Inl e \<Rightarrow> Inl e
           | Inr d \<Rightarrow> Inr (IdExp (VNode d) ref (node_type d), cs)))"

text \<open>
  The property chains of \<^verbatim>\<open>MemberExpression.prototype.analyze\<close>:
  \<^verbatim>\<open>this.object.reference.type\<close> and \<^verbatim>\<open>this.object.reference.initializer.ObjContext\<close>.
  Only an \<^verbatim>\<open>IdExp\<close> has a \<^verbatim>\<open>reference\<close>, only a variable declaration an
  \<^verbatim>\<open>initializer\<close>, only an object literal an \<^verbatim>\<open>ObjContext\<close>; reading a property of
  an absent one throws.
\<close>

fun reference_type :: "node \<Rightarrow> jsError + jstype" where
  "reference_type (IdExp (VNode d) ref t) = Inr (node_type d)"
| "reference_type (IdExp (VString s) ref t) = Inr TUndefined"
| "reference_type n = Inl (TypeError ''Cannot read properties of undefined (reading type)'')"

fun ObjContext :: "node \<Rightarrow> nat option" where
  "ObjContext (ObjectExp properties oc) = oc"
| "ObjContext n = None"

fun reference_initializer_ObjContext :: "node \<Rightarrow> jsError + nat option" where
  "reference_initializer_ObjContext (IdExp (VNode (VariableDeclaration a i t (Some init) ro)) ref ty) =
     Inr (ObjContext init)"
| "reference_initializer_ObjContext n =
     Inl (TypeError ''Cannot read properties of undefined (reading ObjContext)'')"

text \<open>The parameters of a callee, \<^verbatim>\<open>this.callee.parameters\<close>.\<close>

fun parameters :: "node \<Rightarrow> node list option" where
  "parameters (Func a i ps b bc) = ps"
| "parameters (Method a i ps b bc) = ps"
| "parameters n = None"

text \<open>
  One \<^verbatim>\<open>analyze\<close> method per node variant. The method mutates its node in place; the
  model returns the node as the method leaves it, with the store of contexts.
  \<open>context\<close> is \<open>None\<close> where the caller passes no argument. \<open>analyze_each\<close> is
  \<^verbatim>\<open>xs.forEach(e => e.analyze(context))\<close>, \<open>analyze_each_each\<close> the same one level
  down, \<open>analyze_tests\<close> and \<open>analyze_elements\<close> the two loops that check each element
  after analysing it. A declaration is bound in the context as it is at that moment.
\<close>

fun analyze :: "(jstype \<Rightarrow> string) \<Rightarrow> nat option \<Rightarrow> node \<Rightarrow> contexts \<Rightarrow> jsError + node \<times> contexts"
and analyze_each :: "(jstype \<Rightarrow> string) \<Rightarrow> nat option \<Rightarrow> node list \<Rightarrow> contexts \<Rightarrow> jsError + node list \<times> contexts"
and analyze_each_each :: "(jstype \<Rightarrow> string) \<Rightarrow> nat option \<Rightarrow> node list list \<Rightarrow> contexts \<Rightarrow> jsError + node list list \<times> contexts"
and analyze_tests :: "(jstype \<Rightarrow> string) \<Rightarrow> nat option \<Rightarrow> node list \<Rightarrow> contexts \<Rightarrow> jsError + node list \<times> contexts"
and analyze_elements :: "(jstype \<Rightarrow> string) \<Rightarrow> jstype \<Rightarrow> node list \<Rightarrow> contexts \<Rightarrow> jsError + node list \<times> contexts"
where
  "analyze fmt context (ArrayExpression t sz elements) cs =
     (case type_analyze t of
        Inl e \<Rightarrow> Inl e
      | Inr t1 \<Rightarrow>
     (case isArray (ArrayExpression t1 sz elements) of
        Inl e \<Rightarrow> Inl e
      | Inr u \<Rightarrow>
     (case analyze fmt None sz cs of
        Inl e \<Rightarrow> Inl e
      | Inr (sz1, cs1) \<Rightarrow>
     (case isInteger sz1 of
        Inl e \<Rightarrow> Inl e
      | Inr u \<Rightarrow>
     (case analyze_elements fmt t1 elements cs1 of
        Inl e \<Rightarrow> Inl e
      | Inr (elements1, cs2) \<Rightarrow> Inr (ArrayExpression t1 sz1 elements1, cs2))))))"
| "analyze fmt context (AssignmentStatement target source) cs =
     (case analyze fmt context source cs of
        Inl e \<Rightarrow> Inl e
      | Inr (source1, cs1) \<Rightarrow>
     (case analyze fmt context target cs1 of
        Inl e \<Rightarrow> Inl e
      | Inr (target1, cs2) \<Rightarrow>
     (case isAssignableTo fmt source1 (node_type target1) of
        Inl e \<Rightarrow> Inl e
      | Inr u \<Rightarrow>
     (case isNotReadOnly target1 of
        Inl e \<Rightarrow> Inl e
      | Inr u \<Rightarrow> Inr (AssignmentStatement target1 source1, cs2)))))"
| "analyze fmt context (BinaryExpression op left right t) cs =
     (case analyze fmt context left cs of
        Inl e \<Rightarrow> Inl e
      | Inr (left1, cs1) \<Rightarrow>
     (case analyze fmt context right cs1 of
        Inl e \<Rightarrow> Inl e
      | Inr (right1, cs2) \<Rightarrow>
        if test_arithmetic op then
          (case isNumber left1 of
             Inl e \<Rightarrow> Inl e
           | Inr u \<Rightarrow>
          (case isNumber right1 of
             Inl e \<Rightarrow> Inl e
           | Inr u \<Rightarrow>
             if strict_eq (node_type left1) FloatType \<or> strict_eq (node_type right1) FloatType
             then Inr (BinaryExpression op left1 right1 FloatType, cs2)
             else Inr (BinaryExpression op left1 right1 IntType, cs2)))
        else if test_relational op then
          (case isNumber left1 of
             Inl e \<Rightarrow> Inl e
           | Inr u \<Rightarrow>
          (case isNumber right1 of
             Inl e \<Rightarrow> Inl e
           | Inr u \<Rightarrow> Inr (BinaryExpression op left1 right1 BoolType, cs2)))
        else if test_logical op then
          (case check_isBoolean left1 of
             Inl e \<Rightarrow> Inl e
           | Inr u \<Rightarrow>
          (case check_isBoolean right1 of
             Inl e \<Rightarrow> Inl e
           | Inr u \<Rightarrow> Inr (BinaryExpression op left1 right1 BoolType, cs2)))
        else if test_equality op then
          (case expressionsHaveTheSameType left1 right1 of
             Inl e \<Rightarrow> Inl e
           | Inr u \<Rightarrow> Inr (BinaryExpression op left1 right1 BoolType, cs2))
        else Inr (BinaryExpression op left1 right1 t, cs2)))"
| "analyze fmt context (CallExpression callee args) cs =
     (case context of
        None \<Rightarrow> Inl (TypeError ''Cannot read properties of undefined (reading lookupValue)'')
      | Some c \<Rightarrow>
     (case lookupValue callee c cs of
        Inl e \<Rightarrow> Inl e
      | Inr callee1 \<Rightarrow>
     (case isFunction callee1 of
        Inl e \<Rightarrow> Inl e
      | Inr u \<Rightarrow>
     (case analyze_each fmt context args cs of
        Inl e \<Rightarrow> Inl e
      | Inr (args1, cs1) \<Rightarrow>
     (case legalArguments fmt args1 (parameters callee1) of
        Inl e \<Rightarrow> Inl e
      | Inr u \<Rightarrow> Inr (CallExpression (VNode callee1) args1, cs1))))))"
| "analyze fmt context (Field a i t v) cs =
     (case analyze fmt context v cs of
        Inl e \<Rightarrow> Inl e
      | Inr (v1, cs1) \<Rightarrow>
     (case isAssignableTo fmt v1 (getType t) of
        Inl e \<Rightarrow> Inl e
      | Inr u \<Rightarrow>
     (case context of
        None \<Rightarrow> Inl (TypeError ''Cannot read properties of undefined (reading add)'')
      | Some c \<Rightarrow>
     (case add i (Field a i (getType t) v1) c cs1 of
        Inl e \<Rightarrow> Inl e
      | Inr cs2 \<Rightarrow> Inr (Field a i (getType t) v1, cs2)))))"
| "analyze fmt context (ForStatement assignments test action body) cs =
     (case context of
        None \<Rightarrow> Inl (TypeError ''Cannot read properties of undefined (reading createChildContextForLoop)'')
      | Some c \<Rightarrow>
     (case createChildContextForLoop c cs of (loopContext, cs0) \<Rightarrow>
     (case analyze_each fmt (Some loopContext) assignments cs0 of
        Inl e \<Rightarrow> Inl e
      | Inr (assignments1, cs1) \<Rightarrow>
     (case analyze fmt (Some loopContext) test cs1 of
        Inl e \<Rightarrow> Inl e
      | Inr (test1, cs2) \<Rightarrow>
     (case check_isBoolean test1 of
        Inl e \<Rightarrow> Inl e
      | Inr u \<Rightarrow>
     (case analyze fmt (Some loopContext) action cs2 of
        Inl e \<Rightarrow> Inl e
      | Inr (action1, cs3) \<Rightarrow>
     (case check_isAssignment action1 of
        Inl e \<Rightarrow> Inl e
      | Inr u \<Rightarrow>
     (case analyze_each fmt (Some loopContext) body cs3 of
        Inl e \<Rightarrow> Inl e
      | Inr (body1, cs4) \<Rightarrow> Inr (ForStatement assignments1 test1 action1 body1, cs4)))))))))"
| "analyze fmt context (Func a i ps body bc) cs =
     (case context of
        None \<Rightarrow> Inl (TypeError ''Cannot read properties of undefined (reading createChildContextForFunctionBody)'')
      | Some c \<Rightarrow>
     (case createChildContextForFunctionBody c cs of (bodyContext, cs0) \<Rightarrow>
     (case (case ps of
              None \<Rightarrow> Inr (None, cs0)
            | Some ps0 \<Rightarrow>
                (case analyze_each fmt (Some bodyContext) ps0 cs0 of
                   Inl e \<Rightarrow> Inl e
                 | Inr (ps1, cs1) \<Rightarrow> Inr (Some ps1, cs1))) of
        Inl e \<Rightarrow> Inl e
      | Inr (ps1, cs1) \<Rightarrow>
     (case add i (Func a i ps1 body (Some bodyContext)) c cs1 of
        Inl e \<Rightarrow> Inl e
      | Inr cs2 \<Rightarrow>
     (case body of
        None \<Rightarrow> Inr (Func a i ps1 None (Some bodyContext), cs2)
      | Some body0 \<Rightarrow>
          (case analyze_each fmt (Some bodyContext) body0 cs2 of
             Inl e \<Rightarrow> Inl e
           | Inr (body1, cs3) \<Rightarrow> Inr (Func a i ps1 (Some body1) (Some bodyContext), cs3)))))))"
| "analyze fmt context (GifStatement tests consequents alternate) cs =
     (case analyze_tests fmt context tests cs of
        Inl e \<Rightarrow> Inl e
      | Inr (tests1, cs1) \<Rightarrow>
     (case analyze_each_each fmt context consequents cs1 of
        Inl e \<Rightarrow> Inl e
      | Inr (consequents1, cs2) \<Rightarrow>
     (case alternate of
        None \<Rightarrow> Inr (GifStatement tests1 consequents1 None, cs2)
      | Some [] \<Rightarrow> Inl (TypeError ''Cannot read properties of undefined (reading analyze)'')
      | Some (alt # alts) \<Rightarrow>
          (case analyze fmt context alt cs2 of
             Inl e \<Rightarrow> Inl e
           | Inr (alt1, cs3) \<Rightarrow> Inr (GifStatement tests1 consequents1 (Some (alt1 # alts)), cs3)))))"
| "analyze fmt context (IdExp reference ref t) cs = IdExp_analyze context reference ref cs"
| "analyze fmt context (Literal t v) cs = Inr (Literal (getType t) v, cs)"
| "analyze fmt context (MemberExpression a object property t) cs =
     (case analyze fmt context object cs of
        Inl e \<Rightarrow> Inl e
      | Inr (object1, cs1) \<Rightarrow>
     (case reference_type object1 of
        Inl e \<Rightarrow> Inl e
      | Inr rt \<Rightarrow>
        if instanceof_ArrayType rt then
          (case property of
             VNode p \<Rightarrow>
               (case analyze fmt context p cs1 of
                  Inl e \<Rightarrow> Inl e
                | Inr (p1, cs2) \<Rightarrow>
               (case isInteger p1 of
                  Inl e \<Rightarrow> Inl e
                | Inr u \<Rightarrow> Inr (MemberExpression a object1 (VNode p1) (node_type p1), cs2)))
           | VString s \<Rightarrow> Inl (TypeError ''this.property.analyze is not a function'')
           | VUndefined \<Rightarrow> Inl (TypeError ''Cannot read properties of undefined (reading analyze)''))
        else if strict_eq rt (TString ''object'') then
          (case reference_initializer_ObjContext object1 of
             Inl e \<Rightarrow> Inl e
           | Inr oc \<Rightarrow>
          (case IdExp_analyze oc property VUndefined cs1 of
             Inl e \<Rightarrow> Inl e
           | Inr (p1, cs2) \<Rightarrow> Inr (MemberExpression a object1 (VNode p1) (node_type p1), cs2)))
        else Inl (Error (Some ''Non subscriptable expression''))))"
| "analyze fmt context (Method a i ps body bc) cs =
     (case context of
        None \<Rightarrow> Inl (TypeError ''Cannot read properties of undefined (reading createChildContextForFunctionBody)'')
      | Some c \<Rightarrow>
     (case createChildContextForFunctionBody c cs of (bodyContext, cs0) \<Rightarrow>
     (case ps of
        None \<Rightarrow> Inl (TypeError ''Cannot read properties of undefined (reading forEach)'')
      | Some ps0 \<Rightarrow>
     (case analyze_each fmt (Some bodyContext) ps0 cs0 of
        Inl e \<Rightarrow> Inl e
      | Inr (ps1, cs1) \<Rightarrow>
     (case add i (Method a i (Some ps1) body (Some bodyContext)) c cs1 of
        Inl e \<Rightarrow> Inl e
      | Inr cs2 \<Rightarrow>
     (case body of
        None \<Rightarrow> Inr (Method a i (Some ps1) None (Some bodyContext), cs2)
      | Some body0 \<Rightarrow>
          (case analyze_each fmt (Some bodyContext) body0 cs2 of
             Inl e \<Rightarrow> Inl e
           | Inr (body1, cs3) \<Rightarrow> Inr (Method a i (Some ps1) (Some body1) (Some bodyContext), cs3))))))))"
| "analyze fmt context (ObjectExp properties oc) cs =
     (case context of
        None \<Rightarrow> Inl (TypeError ''Cannot read properties of undefined (reading createChildContextForObject)'')
      | Some c \<Rightarrow>
     (case createChildContextForObject c cs of (objContext, cs0) \<Rightarrow>
     (case analyze_each fmt (Some objContext) properties cs0 of
        Inl e \<Rightarrow> Inl e
      | Inr (properties1, cs1) \<Rightarrow> Inr (ObjectExp properties1 (Some objContext), cs1))))"
| "analyze fmt context (Parameter a i t) cs =
     (case context of
        None \<Rightarrow> Inl (TypeError ''Cannot read properties of undefined (reading add)'')
      | Some c \<Rightarrow>
     (case add i (Parameter a i (getType t)) c cs of
        Inl e \<Rightarrow> Inl e
      | Inr cs1 \<Rightarrow> Inr (Parameter a i (getType t), cs1)))"
| "analyze fmt context (ReturnStatement returnValue) cs =
     (case analyze fmt context returnValue cs of
        Inl e \<Rightarrow> Inl e
      | Inr (returnValue1, cs1) \<Rightarrow> Inr (ReturnStatement returnValue1, cs1))"
| "analyze fmt context (ThrowStatement err) cs =
     (case analyze fmt None err cs of
        Inl e \<Rightarrow> Inl e
      | Inr (err1, cs1) \<Rightarrow>
     (case isString err1 of
        Inl e \<Rightarrow> Inl e
      | Inr u \<Rightarrow> Inr (ThrowStatement err1, cs1)))"
| "analyze fmt context (VariableDeclaration a i t initializer ro) cs =
     (case (if instanceof_ArrayType t then type_analyze t else Inr (getType t)) of
        Inl e \<Rightarrow> Inl e
      | Inr t1 \<Rightarrow>
     (case (case initializer of
              None \<Rightarrow> Inr (None, cs)
            | Some init \<Rightarrow>
                (case analyze fmt context init cs of
                   Inl e \<Rightarrow> Inl e
                 | Inr (init1, cs1) \<Rightarrow>
                (case isAssignableTo fmt init1 t1 of
                   Inl e \<Rightarrow> Inl e
                 | Inr u \<Rightarrow> Inr (Some init1, cs1)))) of
        Inl e \<Rightarrow> Inl e
      | Inr (initializer1, cs1) \<Rightarrow>
     (case context of
        None \<Rightarrow> Inl (TypeError ''Cannot read properties of undefined (reading add)'')
      | Some c \<Rightarrow>
     (case add i (VariableDeclaration a i t1 initializer1 ro) c cs1 of
        Inl e \<Rightarrow> Inl e
      | Inr cs2 \<Rightarrow> Inr (VariableDeclaration a i t1 initializer1 ro, cs2)))))"
| "analyze fmt context (WhileStatement test body) cs =
     (case context of
        None \<Rightarrow> Inl (TypeError ''Cannot read properties of undefined (reading createChildContextForLoop)'')
      | Some c \<Rightarrow>
     (case createChildContextForLoop c cs of (loopContext, cs0) \<Rightarrow>
     (case analyze fmt (Some loopContext) test cs0 of
        Inl e \<Rightarrow> Inl e
      | Inr (test1, cs1) \<Rightarrow>
     (case check_isBoolean test1 of
        Inl e \<Rightarrow> Inl e
      | Inr u \<Rightarrow>
     (case analyze_each fmt (Some loopContext) body cs1 of
        Inl e \<Rightarrow> Inl e
      | Inr (body1, cs2) \<Rightarrow> Inr (WhileStatement test1 body1, cs2))))))"
| "analyze_each fmt context [] cs = Inr ([], cs)"
| "analyze_each fmt context (x # xs) cs =
     (case analyze fmt context x cs of
        Inl e \<Rightarrow> Inl e
      | Inr (x1, cs1) \<Rightarrow>
     (case analyze_each fmt context xs cs1 of
        Inl e \<Rightarrow> Inl e
      | Inr (xs1, cs2) \<Rightarrow> Inr (x1 # xs1, cs2)))"
| "analyze_each_each fmt context [] cs = Inr ([], cs)"
| "analyze_each_each fmt context (x # xs) cs =
     (case analyze_each fmt context x cs of
        Inl e \<Rightarrow> Inl e
      | Inr (x1, cs1) \<Rightarrow>
     (case analyze_each_each fmt context xs cs1 of
        Inl e \<Rightarrow> Inl e
      | Inr (xs1, cs2) \<Rightarrow> Inr (x1 # xs1, cs2)))"
| "analyze_tests fmt context [] cs = Inr ([], cs)"
| "analyze_tests fmt context (x # xs) cs =
     (case analyze fmt context x cs of
        Inl e \<Rightarrow> Inl e
      | Inr (x1, cs1) \<Rightarrow>
     (case check_isBoolean x1 of
        Inl e \<Rightarrow> Inl e
      | Inr u \<Rightarrow>
     (case analyze_tests fmt context xs cs1 of
        Inl e \<Rightarrow> Inl e
      | Inr (xs1, cs2) \<Rightarrow> Inr (x1 # xs1, cs2))))"
| "analyze_elements fmt t [] cs = Inr ([], cs)"
| "analyze_elements fmt t (x # xs) cs =
     (case analyze fmt None x cs of
        Inl e \<Rightarrow> Inl e
      | Inr (x1, cs1) \<Rightarrow>
     (case type_of_type t of
        Inl e \<Rightarrow> Inl e
      | Inr elementType \<Rightarrow>
     (case isAssignableTo fmt x1 elementType of
        Inl e \<Rightarrow> Inl e
      | Inr u \<Rightarrow>
     (case analyze_elements fmt t xs cs1 of
        Inl e \<Rightarrow> Inl e
      | Inr (xs1, cs2) \<Rightarrow> Inr (x1 # xs1, cs2)))))"

section \<open>The code generator (javascript-generator.js)\<close>

definition makeOp :: "string \<Rightarrow> string" where
  "makeOp op =
     (if op = ''='' then ''===''
      else if op = ''<>'' then ''!==''
      else if op = ''&'' then ''&&''
      else if op = ''|'' then ''||''
      else op)"

text \<open>
  The naming cache: a counter and a \<^verbatim>\<open>Map\<close> from entities to numbers, shared by all
  calls. A \<^verbatim>\<open>Map\<close> keys objects by identity and strings by content. The key of a node
  is its address; a node of a variant without one is keyed by its value (no such node
  reaches the cache from a parsed tree). \<^verbatim>\<open>v.id\<close> is the declared name of a
  declaration and \<^verbatim>\<open>undefined\<close> on anything else, which a template literal prints as
  the word; on \<^verbatim>\<open>undefined\<close> itself the property read throws. The counter is a
  JavaScript number: \<^verbatim>\<open>++lastId\<close> is exact up to \<open>2 ^ 53\<close> and leaves it unchanged
  there.
\<close>

datatype jskey = KUndefined | KString string | KObject nat | KValue node

record idstate =
  lastId :: nat
  idmap :: "jskey \<Rightarrow> nat option"

definition idstate0 :: idstate where
  "idstate0 = \<lparr>lastId = 0, idmap = (\<lambda>k. None)\<rparr>"

fun address :: "node \<Rightarrow> nat option" where
  "address (Field a i t v) = Some a"
| "address (Func a i ps b bc) = Some a"
| "address (MemberExpression a object property t) = Some a"
| "address (Method a i ps b bc) = Some a"
| "address (Parameter a i t) = Some a"
| "address (VariableDeclaration a i t initializer ro) = Some a"
| "address n = None"

fun key_of :: "jsval \<Rightarrow> jskey" where
  "key_of VUndefined = KUndefined"
| "key_of (VString s) = KString s"
| "key_of (VNode n) = (case address n of Some a \<Rightarrow> KObject a | None \<Rightarrow> KValue n)"

fun node_id :: "node \<Rightarrow> string" where
  "node_id (Field a i t v) = i"
| "node_id (Func a i ps b bc) = i"
| "node_id (Method a i ps b bc) = i"
| "node_id (Parameter a i t) = i"
| "node_id (VariableDeclaration a i t initializer ro) = i"
| "node_id n = ''undefined''"

fun id_of :: "jsval \<Rightarrow> jsError + string" where
  "id_of VUndefined = Inl (TypeError ''Cannot read properties of undefined (reading id)'')"
| "id_of (VString s) = Inr ''undefined''"
| "id_of (VNode n) = Inr (node_id n)"

definition increment :: "nat \<Rightarrow> nat" where
  "increment n = (if n < 2 ^ 53 then n + 1 else n)"

definition javaScriptId :: "jsval \<Rightarrow> idstate \<Rightarrow> (jsError + string) \<times> idstate" where
  "javaScriptId v st =
     (let st1 = (if idmap st (key_of v) = None
                 then \<lparr>lastId = increment (lastId st),
                       idmap = (idmap st)(key_of v \<mapsto> increment (lastId st))\<rparr>
                 else st)
      in (case id_of v of
            Inl e \<Rightarrow> (Inl e, st1)
          | Inr i \<Rightarrow>
              (Inr (i @ ''_'' @ (case idmap st1 (key_of v) of
                                   Some n \<Rightarrow> show_nat n
                                 | None \<Rightarrow> ''undefined'')), st1)))"

text \<open>\<^verbatim>\<open>ps.map(p => javaScriptId(p))\<close> and \<^verbatim>\<open>xs.join(sep)\<close>.\<close>

fun javaScriptId_map :: "node list \<Rightarrow> idstate \<Rightarrow> jsError + string list \<times> idstate" where
  "javaScriptId_map [] st = Inr ([], st)"
| "javaScriptId_map (p # ps) st =
     (case javaScriptId (VNode p) st of
        (Inl e, st1) \<Rightarrow> Inl e
      | (Inr s, st1) \<Rightarrow>
          (case javaScriptId_map ps st1 of
             Inl e \<Rightarrow> Inl e
           | Inr (ss, st2) \<Rightarrow> Inr (s # ss, st2)))"

fun join :: "string \<Rightarrow> string list \<Rightarrow> string" where
  "join sep [] = []"
| "join sep [x] = x"
| "join sep (x # y # ys) = x @ sep @ join sep (y # ys)"

definition generateLibraryStub :: "jsval \<Rightarrow> string \<Rightarrow> string \<Rightarrow> idstate \<Rightarrow> jsError + string \<times> idstate" where
  "generateLibraryStub name params body st =
     (case javaScriptId name st of
        (Inl e, st1) \<Rightarrow> Inl e
      | (Inr s, st1) \<Rightarrow> Inr (''function '' @ s @ ''('' @ params @ '') {'' @ body @ ''}'', st1))"

definition generateLibraryFunctions :: "idstate \<Rightarrow> jsError + string \<times> idstate" where
  "generateLibraryFunctions st =
     (case generateLibraryStub (VString ''print'') ''s'' ''console.log(s);'' st of
        Inl e \<Rightarrow> Inl e
      | Inr (s, st1) \<Rightarrow> Inr (join [] [s], st1))"

text \<open>
  One \<^verbatim>\<open>gen\<close> method per node variant, each returning a fragment of JavaScript; the
  naming cache is threaded through in the order in which the source evaluates its
  calls. \<open>gen_map\<close> is \<^verbatim>\<open>xs.map(x => x.gen())\<close>. Three methods read names that do not
  exist: \<^verbatim>\<open>test\<close> is a free variable of \<^verbatim>\<open>ForStatement.prototype.gen\<close> and
  \<^verbatim>\<open>GifStatement.prototype.gen\<close>, \<^verbatim>\<open>this.params\<close> is not a field of a method (the
  analyzer uses \<^verbatim>\<open>this.parameters\<close>); and an array (\<^verbatim>\<open>elements\<close>, \<^verbatim>\<open>assignments\<close>,
  \<^verbatim>\<open>alternate\<close>) has no \<^verbatim>\<open>gen\<close> method. A thrown error is the node in a template
  literal, which prints an object as \<^verbatim>\<open>[object Object]\<close>.
\<close>

fun gen :: "node \<Rightarrow> idstate \<Rightarrow> jsError + string \<times> idstate"
and gen_map :: "node list \<Rightarrow> idstate \<Rightarrow> jsError + string list \<times> idstate"
where
  "gen (ArrayExpression t sz elements) st =
     (case gen sz st of
        Inl e \<Rightarrow> Inl e
      | Inr (s, st1) \<Rightarrow> Inl (TypeError ''this.elements.gen is not a function''))"
| "gen (AssignmentStatement target source) st =
     (case gen target st of
        Inl e \<Rightarrow> Inl e
      | Inr (t, st1) \<Rightarrow>
     (case gen source st1 of
        Inl e \<Rightarrow> Inl e
      | Inr (s, st2) \<Rightarrow> Inr (t @ '' = '' @ s, st2)))"
| "gen (BinaryExpression op left right t) st =
     (case gen left st of
        Inl e \<Rightarrow> Inl e
      | Inr (l, st1) \<Rightarrow>
     (case gen right st1 of
        Inl e \<Rightarrow> Inl e
      | Inr (r, st2) \<Rightarrow> Inr (''('' @ l @ '' '' @ makeOp op @ '' '' @ r @ '')'', st2)))"
| "gen (CallExpression callee args) st =
     (case gen_map args st of
        Inl e \<Rightarrow> Inl e
      | Inr (args1, st1) \<Rightarrow>
     (case javaScriptId callee st1 of
        (Inl e, st2) \<Rightarrow> Inl e
      | (Inr name, st2) \<Rightarrow> Inr (name @ ''('' @ join '','' args1 @ '')'', st2)))"
| "gen (Field a i t v) st =
     (case javaScriptId (VNode (Field a i t v)) st of
        (Inl e, st1) \<Rightarrow> Inl e
      | (Inr name, st1) \<Rightarrow>
     (case gen v st1 of
        Inl e \<Rightarrow> Inl e
      | Inr (s, st2) \<Rightarrow> Inr (name @ '' : '' @ s, st2)))"
| "gen (ForStatement assignments test action body) st =
     (case gen_map body st of
        Inl e \<Rightarrow> Inl e
      | Inr (body1, st1) \<Rightarrow> Inl (TypeError ''this.assignments.gen is not a function''))"
| "gen (Func a i ps body bc) st =
     (case javaScriptId (VNode (Func a i ps body bc)) st of
        (Inl e, st1) \<Rightarrow> Inl e
      | (Inr name, st1) \<Rightarrow>
     (case ps of
        None \<Rightarrow> Inl (TypeError ''Cannot read properties of undefined (reading map)'')
      | Some ps0 \<Rightarrow>
     (case javaScriptId_map ps0 st1 of
        Inl e \<Rightarrow> Inl e
      | Inr (params, st2) \<Rightarrow>
     (case body of
        None \<Rightarrow> Inl (TypeError ''Cannot read properties of undefined (reading map)'')
      | Some body0 \<Rightarrow>
     (case gen_map body0 st2 of
        Inl e \<Rightarrow> Inl e
      | Inr (body1, st3) \<Rightarrow>
          Inr (''function '' @ name @ '' ('' @ join '','' params @ '') {'' @ join '';'' body1 @ '';}'',
               st3))))))"
| "gen (GifStatement tests consequents alternate) st =
     (case alternate of
        None \<Rightarrow> Inl (ReferenceError ''test is not defined'')
      | Some alt \<Rightarrow> Inl (TypeError ''this.alternate.gen is not a function''))"
| "gen (IdExp reference ref t) st =
     (case javaScriptId reference st of
        (Inl e, st1) \<Rightarrow> Inl e
      | (Inr name, st1) \<Rightarrow> Inr (name, st1))"
| "gen (Literal t v) st =
     (if strict_eq t StringType then Inr ([CHR 0x22] @ v @ [CHR 0x22], st) else Inr (v, st))"
| "gen (MemberExpression a object property t) st =
     (case gen object st of
        Inl e \<Rightarrow> Inl e
      | Inr (s, st1) \<Rightarrow>
     (case javaScriptId (VNode (MemberExpression a object property t)) st1 of
        (Inl e, st2) \<Rightarrow> Inl e
      | (Inr name, st2) \<Rightarrow> Inr (s @ ''.['' @ name @ '']'', st2)))"
| "gen (Method a i ps body bc) st =
     (case javaScriptId (VNode (Method a i ps body bc)) st of
        (Inl e, st1) \<Rightarrow> Inl e
      | (Inr name, st1) \<Rightarrow> Inl (TypeError ''Cannot read properties of undefined (reading map)''))"
| "gen (ObjectExp properties oc) st =
     (case gen_map properties st of
        Inl e \<Rightarrow> Inl e
      | Inr (properties1, st1) \<Rightarrow> Inr (join '','' properties1, st1))"
| "gen (Parameter a i t) st =
     (case javaScriptId (VNode (Parameter a i t)) st of
        (Inl e, st1) \<Rightarrow> Inl e
      | (Inr name, st1) \<Rightarrow> Inr (name, st1))"
| "gen (ReturnStatement returnValue) st =
     (case gen returnValue st of
        Inl e \<Rightarrow> Inl e
      | Inr (s, st1) \<Rightarrow> Inr (''return '' @ s, st1))"
| "gen (ThrowStatement err) st =
     Inr (''throw Error('' @ [CHR 0x22] @ ''[object Object]'' @ [CHR 0x22] @ '')'', st)"
| "gen (VariableDeclaration a i t initializer ro) st =
     (case javaScriptId (VNode (VariableDeclaration a i t initializer ro)) st of
        (Inl e, st1) \<Rightarrow> Inl e
      | (Inr name, st1) \<Rightarrow>
     (case initializer of
        None \<Rightarrow> Inl (TypeError ''Cannot read properties of undefined (reading gen)'')
      | Some init \<Rightarrow>
     (case gen init st1 of
        Inl e \<Rightarrow> Inl e
      | Inr (s, st2) \<Rightarrow> Inr (''let '' @ name @ '' = '' @ s, st2))))"
| "gen (WhileStatement test body) st =
     (case gen_map body st of
        Inl e \<Rightarrow> Inl e
      | Inr (body1, st1) \<Rightarrow>
     (case gen test st1 of
        Inl e \<Rightarrow> Inl e
      | Inr (t, st2) \<Rightarrow>
          Inr (''while ('' @ t @ '') { '' @ join '';'' body1 @ ''))'' @ [CHR 0x0A]
               @ ''        .join('' @ [CHR 0x27] @ '';'' @ [CHR 0x27] @ '')} }'', st2)))"
| "gen_map [] st = Inr ([], st)"
| "gen_map (x # xs) st =
     (case gen x st of
        Inl e \<Rightarrow> Inl e
      | Inr (s, st1) \<Rightarrow>
     (case gen_map xs st1 of
        Inl e \<Rightarrow> Inl e
      | Inr (ss, st2) \<Rightarrow> Inr (s # ss, st2)))"

text \<open>
  The exported function: the text that \<^verbatim>\<open>exp.gen()\<close> returns goes through the
  formatter of the prettier-eslint package, the parameter \<open>format\<close>; nothing else is
  added to it (the call of \<^verbatim>\<open>generateLibraryFunctions\<close> is commented out).
\<close>

definition generate :: "(string \<Rightarrow> jsError + string) \<Rightarrow> node \<Rightarrow> idstate \<Rightarrow> jsError + string \<times> idstate" where
  "generate format exp st =
     (case gen exp st of
        Inl e \<Rightarrow> Inl e
      | Inr (sourceCode, st1) \<Rightarrow>
          (case format sourceCode of
             Inl e \<Rightarrow> Inl e
           | Inr program \<Rightarrow> Inr (program, st1)))"

section \<open>Auxiliary definitions for the properties\<close>

text \<open>
  A compilation is a sequence of calls of \<^verbatim>\<open>javaScriptId\<close> on one cache:
  \<open>renderings vs st\<close> are the results of the calls on \<open>vs\<close> in order, starting from
  the cache \<open>st\<close>, and \<open>cache_after vs st\<close> is the cache they leave. \<open>cache_ok\<close> is the
  invariant of the cache: every number handed out is positive and at most the counter,
  and no number is handed out twice.
\<close>

fun renderings :: "jsval list \<Rightarrow> idstate \<Rightarrow> (jsError + string) list" where
  "renderings [] st = []"
| "renderings (v # vs) st = (case javaScriptId v st of (r, st1) \<Rightarrow> r # renderings vs st1)"

fun cache_after :: "jsval list \<Rightarrow> idstate \<Rightarrow> idstate" where
  "cache_after [] st = st"
| "cache_after (v # vs) st = cache_after vs (snd (javaScriptId v st))"

definition cache_ok :: "idstate \<Rightarrow> bool" where
  "cache_ok st =
     ((\<forall>k n. idmap st k = Some n \<longrightarrow> 0 < n \<and> n \<le> lastId st) \<and>
      (\<forall>k k' n. idmap st k = Some n \<longrightarrow> idmap st k' = Some n \<longrightarrow> k = k'))"

text \<open>An expression whose type is Int or Float.\<close>

definition numeric :: "node \<Rightarrow> bool" where
  "numeric e = (node_type e = IntType \<or> node_type e = FloatType)"

text \<open>
  The global scope after \<^verbatim>\<open>var x : whole_number\<close> was analysed, the declaration
  read-only or not.
\<close>

definition x_scope :: "bool \<Rightarrow> contexts" where
  "x_scope ro = [\<lparr>parent = None, kind = GlobalScope,
                  valueMap = [(''x'', VariableDeclaration 1 ''x'' IntType None ro)]\<rparr>]"

section \<open>Properties\<close>

subsection \<open>Strict equality\<close>

lemma strict_eq_refl: "strict_eq t t"
  by (simp add: strict_eq_def)

lemma strict_eq_simps:
  "strict_eq t IntType = (t = IntType)"
  "strict_eq t FloatType = (t = FloatType)"
  "strict_eq t StringType = (t = StringType)"
  "strict_eq t BoolType = (t = BoolType)"
  "strict_eq t NullType = (t = NullType)"
  "strict_eq t ArrayTypeClass = (t = ArrayTypeClass)"
  "strict_eq t TUndefined = (t = TUndefined)"
  "strict_eq t (TString s) = (t = TString s)"
  by (cases t; simp add: strict_eq_def)+

subsection \<open>Analysis of loops and conditionals\<close>

text \<open>
  Every loop test and every test of a conditional goes through \<^verbatim>\<open>check.isBoolean\<close>,
  which check.js does not export: the analysis of a while loop, of a for loop and of a
  conditional with a test can only end in an error.
\<close>

lemma WhileStatement_analyze_raises:
  "\<exists>e. analyze fmt context (WhileStatement test body) cs = Inl e"
  by (simp add: check_isBoolean_def split: option.splits sum.splits prod.splits)

lemma ForStatement_analyze_raises:
  "\<exists>e. analyze fmt context (ForStatement assignments test action body) cs = Inl e"
  by (simp add: check_isBoolean_def split: option.splits sum.splits prod.splits)

lemma GifStatement_analyze_raises:
  "\<exists>e. analyze fmt context (GifStatement (x # xs) consequents alternate) cs = Inl e"
  by (simp add: check_isBoolean_def split: option.splits sum.splits prod.splits)

text \<open>
  Claim C1 (analysis of a well-typed program ends without raising; in particular that
  of a well-typed conditional, for loop or while loop). The code raises on each of the
  three: \<^verbatim>\<open>while true do end\<close>, a conditional on \<^verbatim>\<open>true\<close> and a for loop whose test is
  \<^verbatim>\<open>true\<close> all end in the TypeError of the missing \<^verbatim>\<open>check.isBoolean\<close>.
\<close>

theorem analyze_loops_and_conditional_raise:
  "analyze fmt (Some 0) (WhileStatement (Literal (TString ''true_or_false'') ''true'') []) INITIAL
     = Inl (TypeError ''check.isBoolean is not a function'') \<and>
   analyze fmt (Some 0) (GifStatement [Literal (TString ''true_or_false'') ''true'']
                           [[ReturnStatement (Literal (TString ''whole_number'') ''1'')]] None) INITIAL
     = Inl (TypeError ''check.isBoolean is not a function'') \<and>
   analyze fmt (Some 0)
       (ForStatement [] (Literal (TString ''true_or_false'') ''true'')
          (AssignmentStatement (IdExp (VString ''x'') VUndefined TUndefined)
             (Literal (TString ''whole_number'') ''1'')) []) (x_scope False)
     = Inl (TypeError ''check.isBoolean is not a function'')"
  by (simp add: INITIAL_def x_scope_def createChildContextForLoop_def createChildContext_def
        check_isBoolean_def)

subsection \<open>Binary expressions\<close>

text \<open>
  What the analysis of a binary expression does once both operands are analysed, by
  operator. The arithmetic operators, \<^verbatim>\<open><\<close>, \<^verbatim>\<open>>\<close> and \<^verbatim>\<open>=\<close> follow the table of the
  spec. \<^verbatim>\<open><>\<close> matches the second regular expression before the fourth is tried,
  and is checked as a relational operator; \<^verbatim>\<open>||\<close> and \<^verbatim>\<open>&&\<close> reach the missing
  \<^verbatim>\<open>check.isBoolean\<close>.
\<close>

lemma BinaryExpression_arithmetic:
  assumes "analyze fmt context left cs = Inr (left1, cs1)"
    and "analyze fmt context right cs1 = Inr (right1, cs2)"
    and "op \<in> {''-'', ''+'', ''*'', ''/''}"
  shows "analyze fmt context (BinaryExpression op left right t) cs =
             (if numeric left1 \<and> numeric right1
              then Inr (BinaryExpression op left1 right1
                         (if node_type left1 = FloatType \<or> node_type right1 = FloatType
                          then FloatType else IntType), cs2)
              else Inl (Error (Some ''Not a number'')))"
proof -
  from assms(3) have "test_arithmetic op"
    by (auto simp: test_arithmetic_def)
  with assms(1,2) show ?thesis
    by (simp add: isNumber_def doCheck_def numeric_def strict_eq_simps)
qed

lemma BinaryExpression_relational:
  assumes "analyze fmt context left cs = Inr (left1, cs1)"
    and "analyze fmt context right cs1 = Inr (right1, cs2)"
    and "op \<in> {''<'', ''>''}"
  shows "analyze fmt context (BinaryExpression op left right t) cs =
             (if numeric left1 \<and> numeric right1
              then Inr (BinaryExpression op left1 right1 BoolType, cs2)
              else Inl (Error (Some ''Not a number'')))"
proof -
  from assms(3) have "\<not> test_arithmetic op" "test_relational op"
    by (auto simp: test_arithmetic_def test_relational_def)
  with assms(1,2) show ?thesis
    by (simp add: isNumber_def doCheck_def numeric_def strict_eq_simps)
qed

lemma BinaryExpression_equal:
  assumes "analyze fmt context left cs = Inr (left1, cs1)"
    and "analyze fmt context right cs1 = Inr (right1, cs2)"
  shows "analyze fmt context (BinaryExpression ''='' left right t) cs =
             (if strict_eq (node_type left1) (node_type right1)
              then Inr (BinaryExpression ''='' left1 right1 BoolType, cs2)
              else Inl (Error (Some ''Types must match exactly'')))"
proof -
  have "\<not> test_arithmetic ''=''" "\<not> test_relational ''=''" "\<not> test_logical ''=''"
    "test_equality ''=''"
    by (simp_all add: test_arithmetic_def test_relational_def test_logical_def test_equality_def)
  with assms(1,2) show ?thesis
    by (simp add: doCheck_def expressionsHaveTheSameType_def)
qed

lemma BinaryExpression_inequality:
  assumes "analyze fmt context left cs = Inr (left1, cs1)"
    and "analyze fmt context right cs1 = Inr (right1, cs2)"
  shows "analyze fmt context (BinaryExpression ''<>'' left right t) cs =
             (if numeric left1 \<and> numeric right1
              then Inr (BinaryExpression ''<>'' left1 right1 BoolType, cs2)
              else Inl (Error (Some ''Not a number'')))"
proof -
  have "\<not> test_arithmetic ''<>''" "test_relational ''<>''"
    by (simp_all add: test_arithmetic_def test_relational_def)
  with assms(1,2) show ?thesis
    by (simp add: isNumber_def doCheck_def numeric_def strict_eq_simps)
qed

lemma BinaryExpression_logical:
  assumes "analyze fmt context left cs = Inr (left1, cs1)"
    and "analyze fmt context right cs1 = Inr (right1, cs2)"
    and "op \<in> {''||'', ''&&''}"
  shows "analyze fmt context (BinaryExpression op left right t) cs =
           Inl (TypeError ''check.isBoolean is not a function'')"
proof -
  from assms(3) have "\<not> test_arithmetic op" "\<not> test_relational op" "test_logical op"
    by (auto simp: test_arithmetic_def test_relational_def test_logical_def)
  with assms(1,2) show ?thesis
    by (simp add: check_isBoolean_def)
qed

text \<open>
  Claim C2 (the operator table: \<^verbatim>\<open>=\<close> and \<^verbatim>\<open><>\<close> need two operands of exactly the same
  type, \<^verbatim>\<open>||\<close> and \<^verbatim>\<open>&&\<close> two booleans, the result being Bool). On the code, two
  strings compared with \<^verbatim>\<open><>\<close> are refused as not numbers, an Int and a Float compared
  with \<^verbatim>\<open><>\<close> are accepted, and two booleans joined by \<^verbatim>\<open>&&\<close> or \<^verbatim>\<open>||\<close> end in a
  TypeError.
\<close>

theorem BinaryExpression_inequality_and_logical:
  "analyze fmt (Some 0)
      (BinaryExpression ''<>'' (Literal (TString ''array_of_chars'') ''a'')
         (Literal (TString ''array_of_chars'') ''b'') TUndefined) INITIAL
     = Inl (Error (Some ''Not a number'')) \<and>
   analyze fmt (Some 0)
      (BinaryExpression ''<>'' (Literal (TString ''whole_number'') ''1'')
         (Literal (TString ''not_whole_number'') ''1.5'') TUndefined) INITIAL
     = Inr (BinaryExpression ''<>'' (Literal IntType ''1'') (Literal FloatType ''1.5'') BoolType,
            INITIAL) \<and>
   analyze fmt (Some 0)
      (BinaryExpression ''&&'' (Literal (TString ''true_or_false'') ''true'')
         (Literal (TString ''true_or_false'') ''false'') TUndefined) INITIAL
     = Inl (TypeError ''check.isBoolean is not a function'') \<and>
   analyze fmt (Some 0)
      (BinaryExpression ''||'' (Literal (TString ''true_or_false'') ''true'')
         (Literal (TString ''true_or_false'') ''false'') TUndefined) INITIAL
     = Inl (TypeError ''check.isBoolean is not a function'')"
  by (simp add: test_arithmetic_def test_relational_def test_logical_def test_equality_def
        isNumber_def doCheck_def strict_eq_def check_isBoolean_def)

subsection \<open>Generation\<close>

text \<open>
  Four \<^verbatim>\<open>gen\<close> methods cannot return: those of a conditional, of a for loop, of an
  array expression and of a method. The one of a while loop returns, with the remains
  of an unfinished edit in its text. A declaration without initializer and a conditional
  without tests pass the analyzer and make the generator raise.
\<close>

lemma gen_raises:
  "\<exists>e. gen (GifStatement tests consequents alternate) st = Inl e"
  "\<exists>e. gen (ForStatement assignments test action body) st = Inl e"
  "\<exists>e. gen (ArrayExpression t sz elements) st = Inl e"
  "\<exists>e. gen (Method a i ps mbody bc) st = Inl e"
  by (simp_all split: option.splits sum.splits prod.splits)

lemma gen_WhileStatement:
  "gen (WhileStatement (Literal BoolType ''true'') []) st
     = Inr (''while (true) { ))'' @ [CHR 0x0A] @ ''        .join('' @ [CHR 0x27] @ '';''
            @ [CHR 0x27] @ '')} }'', st)"
  by (simp add: strict_eq_def)

lemma analyzed_trees_gen_raises:
  "analyze fmt context (GifStatement [] [] None) cs = Inr (GifStatement [] [] None, cs)"
  "gen (GifStatement [] [] None) st = Inl (ReferenceError ''test is not defined'')"
  "analyze fmt (Some 0) (VariableDeclaration 1 ''x'' (TString ''whole_number'') None False) INITIAL
     = Inr (VariableDeclaration 1 ''x'' IntType None False, x_scope False)"
  "gen (VariableDeclaration 1 ''x'' IntType None False) idstate0
     = Inl (TypeError ''Cannot read properties of undefined (reading gen)'')"
  by (simp_all add: INITIAL_def x_scope_def add_def javaScriptId_def idstate0_def Let_def)

text \<open>
  Claim C3 (generation of an analysed, well-typed tree cannot fail, for loops and
  conditionals included). The code raises on an analysed conditional (the free variable
  \<^verbatim>\<open>test\<close>) and on an analysed for loop (\<^verbatim>\<open>assignments\<close> is an array and has no
  \<^verbatim>\<open>gen\<close>); and the declaration \<^verbatim>\<open>var x : whole_number\<close>, which the analyzer of the
  code accepts, makes the generator raise on its absent initializer.
\<close>

theorem gen_conditional_and_loop_raise:
  "gen (GifStatement [Literal BoolType ''true''] [[ReturnStatement (Literal IntType ''1'')]] None) st
     = Inl (ReferenceError ''test is not defined'') \<and>
   gen (ForStatement [] (Literal BoolType ''true'')
          (AssignmentStatement
             (IdExp (VNode (VariableDeclaration 1 ''x'' IntType None False)) VUndefined IntType)
             (Literal IntType ''1'')) []) st
     = Inl (TypeError ''this.assignments.gen is not a function'') \<and>
   analyze fmt (Some 0) (VariableDeclaration 1 ''x'' (TString ''whole_number'') None False) INITIAL
     = Inr (VariableDeclaration 1 ''x'' IntType None False, x_scope False) \<and>
   gen (VariableDeclaration 1 ''x'' IntType None False) idstate0
     = Inl (TypeError ''Cannot read properties of undefined (reading gen)'')"
  by (simp add: INITIAL_def x_scope_def add_def javaScriptId_def idstate0_def Let_def)

text \<open>
  The library stub, had it been generated: \<^verbatim>\<open>javaScriptId\<close> receives the string
  \<^verbatim>\<open>'print'\<close>, which has no \<^verbatim>\<open>id\<close>, so the function is not named print.
\<close>

lemma generateLibraryFunctions_idstate0:
  "generateLibraryFunctions idstate0 =
     Inr (''function undefined_1(s) {console.log(s);}'',
          \<lparr>lastId = 1, idmap = (\<lambda>k. None)(KString ''print'' \<mapsto> 1)\<rparr>)"
  by (simp add: generateLibraryFunctions_def generateLibraryStub_def javaScriptId_def idstate0_def
        increment_def Let_def show_nat.simps digit_char_def)

text \<open>
  Claim C4 (the string returned by \<^verbatim>\<open>generate(root)\<close> includes the translation of the
  print stub). The code hands the formatter the text of \<^verbatim>\<open>exp.gen()\<close> alone: for the
  literal \<^verbatim>\<open>0\<close> that text is \<^verbatim>\<open>0\<close>, and with a formatter that returns its input the
  result is \<^verbatim>\<open>0\<close>, which holds no call of the console-output primitive.
\<close>

theorem generate_without_library_stub:
  "generate format (Literal IntType ''0'') st =
     (case format ''0'' of Inl e \<Rightarrow> Inl e | Inr program \<Rightarrow> Inr (program, st)) \<and>
   generate Inr (Literal IntType ''0'') st = Inr (''0'', st) \<and>
   \<not> contains ''0'' ''console.log''"
  by (simp add: generate_def strict_eq_def)

subsection \<open>The naming cache\<close>

lemma digit_char_inj: "a < 10 \<Longrightarrow> b < 10 \<Longrightarrow> digit_char a = digit_char b \<Longrightarrow> a = b"
proof -
  have d: "distinct ''0123456789''" by simp
  assume "a < 10" "b < 10" "digit_char a = digit_char b"
  then show ?thesis using d unfolding digit_char_def
    by (simp add: nth_eq_iff_index_eq)
qed

lemma show_nat_nonempty: "show_nat n \<noteq> []"
  by (subst show_nat.simps) simp

lemma show_nat_inj: "show_nat m = show_nat n \<Longrightarrow> m = n"
proof (induction m arbitrary: n rule: show_nat.induct)
  case (1 m)
  show ?case
  proof (cases "m < 10")
    case True
    note m = True
    show ?thesis
    proof (cases "n < 10")
      case True
      with m "1.prems" show ?thesis
        by (simp add: show_nat.simps [of m] show_nat.simps [of n] digit_char_inj)
    next
      case False
      with m "1.prems" show_nat_nonempty [of "n div 10"] show ?thesis
        by (simp add: show_nat.simps [of m] show_nat.simps [of n])
    qed
  next
    case False
    note m = False
    show ?thesis
    proof (cases "n < 10")
      case True
      with m "1.prems" show_nat_nonempty [of "m div 10"] show ?thesis
        by (simp add: show_nat.simps [of m] show_nat.simps [of n])
    next
      case False
      with m "1.prems" have e: "show_nat (m div 10) = show_nat (n div 10)"
        and c: "digit_char (m mod 10) = digit_char (n mod 10)"
        by (simp_all add: show_nat.simps [of m] show_nat.simps [of n])
      from "1.IH" [OF m e] have "m div 10 = n div 10" .
      moreover from c have "m mod 10 = n mod 10" by (simp add: digit_char_inj)
      ultimately show ?thesis by (metis div_mult_mod_eq)
    qed
  qed
qed

lemma javaScriptId_snd:
  "snd (javaScriptId v st) =
     (if idmap st (key_of v) = None
      then \<lparr>lastId = increment (lastId st),
            idmap = (idmap st)(key_of v \<mapsto> increment (lastId st))\<rparr>
      else st)"
  by (simp add: javaScriptId_def Let_def split: sum.splits)

lemma javaScriptId_fst:
  "fst (javaScriptId v st) =
     (case id_of v of
        Inl e \<Rightarrow> Inl e
      | Inr i \<Rightarrow> Inr (i @ ''_'' @ (case idmap (snd (javaScriptId v st)) (key_of v) of
                                      Some n \<Rightarrow> show_nat n
                                    | None \<Rightarrow> ''undefined'')))"
  by (simp add: javaScriptId_def Let_def split: sum.splits)

lemma javaScriptId_keeps:
  "idmap st k = Some n \<Longrightarrow> idmap (snd (javaScriptId v st)) k = Some n"
  by (auto simp: javaScriptId_snd)

lemma javaScriptId_binds: "\<exists>n. idmap (snd (javaScriptId v st)) (key_of v) = Some n"
  by (auto simp: javaScriptId_snd)

lemma javaScriptId_lastId: "lastId (snd (javaScriptId v st)) \<le> lastId st + 1"
  by (simp add: javaScriptId_snd increment_def)

lemma javaScriptId_cache_ok:
  assumes "cache_ok st" and "lastId st < 2 ^ 53"
  shows "cache_ok (snd (javaScriptId v st))"
proof (cases "idmap st (key_of v) = None")
  case False
  with assms(1) show ?thesis by (auto simp: javaScriptId_snd)
next
  case True
  from assms(2) have inc: "increment (lastId st) = lastId st + 1"
    by (simp add: increment_def)
  from assms(1) have b: "\<And>k n. idmap st k = Some n \<Longrightarrow> 0 < n \<and> n \<le> lastId st"
    and i: "\<And>k k' n. idmap st k = Some n \<Longrightarrow> idmap st k' = Some n \<Longrightarrow> k = k'"
    unfolding cache_ok_def by blast+
  show ?thesis
    unfolding cache_ok_def javaScriptId_snd using True inc
    by (auto dest: b i)
qed

lemma cache_after_keeps:
  "idmap st k = Some n \<Longrightarrow> idmap (cache_after vs st) k = Some n"
  by (induction vs arbitrary: st) (auto intro: javaScriptId_keeps)

lemma cache_after_ok:
  "cache_ok st \<Longrightarrow> lastId st + length vs \<le> 2 ^ 53 \<Longrightarrow> cache_ok (cache_after vs st)"
proof (induction vs arbitrary: st)
  case Nil
  then show ?case by simp
next
  case (Cons v vs)
  from Cons.prems have lt: "lastId st < 2 ^ 53" by simp
  have ok: "cache_ok (snd (javaScriptId v st))"
    by (rule javaScriptId_cache_ok [OF Cons.prems(1) lt])
  have "lastId (snd (javaScriptId v st)) + length vs \<le> 2 ^ 53"
    using javaScriptId_lastId [of v st] Cons.prems(2) by simp
  from Cons.IH [OF ok this] show ?case by simp
qed

lemma renderings_Cons:
  "renderings (v # vs) st = fst (javaScriptId v st) # renderings vs (snd (javaScriptId v st))"
  by (simp split: prod.splits)

lemma renderings_nth:
  "i < length vs \<Longrightarrow>
   (\<exists>n. idmap (cache_after vs st) (key_of (vs ! i)) = Some n \<and>
        renderings vs st ! i =
          (case id_of (vs ! i) of
             Inl e \<Rightarrow> Inl e
           | Inr s \<Rightarrow> Inr (s @ ''_'' @ show_nat n)))"
proof (induction vs arbitrary: i st)
  case Nil
  then show ?case by simp
next
  case (Cons v vs)
  show ?case
  proof (cases i)
    case 0
    obtain n where n: "idmap (snd (javaScriptId v st)) (key_of v) = Some n"
      using javaScriptId_binds by blast
    have "idmap (cache_after (v # vs) st) (key_of v) = Some n"
      using cache_after_keeps [OF n] by simp
    moreover have "renderings (v # vs) st ! 0 = fst (javaScriptId v st)"
      by (simp only: renderings_Cons nth_Cons_0)
    ultimately show ?thesis using 0 n
      by (cases "id_of v") (simp_all add: javaScriptId_fst)
  next
    case (Suc k)
    with Cons.prems have k: "k < length vs" by simp
    from Cons.IH [OF k, of "snd (javaScriptId v st)"] Suc show ?thesis
      by (simp only: renderings_Cons cache_after.simps nth_Cons_Suc)
  qed
qed

lemma cache_ok_idstate0: "cache_ok idstate0"
  by (simp add: cache_ok_def idstate0_def)

text \<open>
  Claim C5 (two distinct declarations with the same source name get different
  identifiers; one declaration rendered several times gets the same identifier each
  time). Among the calls of one run of the cache from its initial state, fewer than
  \<open>2 ^ 53\<close> of them so that the counter stays exact, the renderings of two nodes with
  the same \<^verbatim>\<open>id\<close> are equal exactly when the two nodes are the same object.
\<close>

theorem javaScriptId_unique_and_stable:
  assumes "length vs < 2 ^ 53" and "i < length vs" and "j < length vs"
    and "vs ! i = VNode d" and "vs ! j = VNode d'"
    and "address d = Some a" and "address d' = Some a'"
    and "node_id d = node_id d'"
  shows "(renderings vs idstate0 ! i = renderings vs idstate0 ! j) = (a = a')"
proof -
  let ?st = "cache_after vs idstate0"
  have ok: "cache_ok ?st"
    using cache_after_ok [OF cache_ok_idstate0, of vs] assms(1)
    by (simp add: idstate0_def)
  have ki: "key_of (vs ! i) = KObject a" and kj: "key_of (vs ! j) = KObject a'"
    using assms by simp_all
  obtain n where n: "idmap ?st (KObject a) = Some n"
    and ri: "renderings vs idstate0 ! i = Inr (node_id d @ ''_'' @ show_nat n)"
    using renderings_nth [OF assms(2), of idstate0] ki assms(4) by auto
  obtain m where m: "idmap ?st (KObject a') = Some m"
    and rj: "renderings vs idstate0 ! j = Inr (node_id d @ ''_'' @ show_nat m)"
    using renderings_nth [OF assms(3), of idstate0] kj assms(5,8) by auto
  from ok have inj: "\<And>k k' n. idmap ?st k = Some n \<Longrightarrow> idmap ?st k' = Some n \<Longrightarrow> k = k'"
    unfolding cache_ok_def by blast
  show ?thesis
  proof
    assume "renderings vs idstate0 ! i = renderings vs idstate0 ! j"
    with ri rj have "show_nat n = show_nat m" by simp
    then have "n = m" by (rule show_nat_inj)
    with n m inj have "KObject a = KObject a'" by blast
    then show "a = a'" by simp
  next
    assume "a = a'"
    with n m have "n = m" by simp
    with ri rj show "renderings vs idstate0 ! i = renderings vs idstate0 ! j" by simp
  qed
qed

text \<open>
  The renderings of a variable \<open>x\<close>, of a parameter \<open>x\<close> and of the variable again.
\<close>

lemma renderings_example:
  "renderings [VNode (VariableDeclaration 1 ''x'' IntType None False),
               VNode (Parameter 2 ''x'' IntType),
               VNode (VariableDeclaration 1 ''x'' IntType None False)] idstate0
   = [Inr ''x_1'', Inr ''x_2'', Inr ''x_1'']"
  by (simp add: javaScriptId_def idstate0_def increment_def Let_def show_nat.simps digit_char_def)

theorem javaScriptId_unique_and_stable_witness:
  "renderings [VNode (VariableDeclaration 1 ''x'' IntType None False),
               VNode (Parameter 2 ''x'' IntType),
               VNode (VariableDeclaration 1 ''x'' IntType None False)] idstate0 ! 0
   \<noteq> renderings [VNode (VariableDeclaration 1 ''x'' IntType None False),
                 VNode (Parameter 2 ''x'' IntType),
                 VNode (VariableDeclaration 1 ''x'' IntType None False)] idstate0 ! 1 \<and>
   renderings [VNode (VariableDeclaration 1 ''x'' IntType None False),
               VNode (Parameter 2 ''x'' IntType),
               VNode (VariableDeclaration 1 ''x'' IntType None False)] idstate0 ! 0
   = renderings [VNode (VariableDeclaration 1 ''x'' IntType None False),
                 VNode (Parameter 2 ''x'' IntType),
                 VNode (VariableDeclaration 1 ''x'' IntType None False)] idstate0 ! 2"
  using javaScriptId_unique_and_stable
    [of "[VNode (VariableDeclaration 1 ''x'' IntType None False),
          VNode (Parameter 2 ''x'' IntType),
          VNode (VariableDeclaration 1 ''x'' IntType None False)]" 0 1
        "VariableDeclaration 1 ''x'' IntType None False" "Parameter 2 ''x'' IntType" 1 2]
    javaScriptId_unique_and_stable
    [of "[VNode (VariableDeclaration 1 ''x'' IntType None False),
          VNode (Parameter 2 ''x'' IntType),
          VNode (VariableDeclaration 1 ''x'' IntType None False)]" 0 2
        "VariableDeclaration 1 ''x'' IntType None False"
        "VariableDeclaration 1 ''x'' IntType None False" 1 1]
  by simp

subsection \<open>Assignability\<close>

text \<open>
  Claim C6 as stated (an expression of Null type is rejected against every primitive
  target, Null included) fails on the Null target: the types are equal, and the check
  passes.
\<close>

theorem isAssignableTo_Null_to_Null_counterexample:
  "isAssignableTo type_name (Literal NullType ''nil'') NullType = Inr ()"
  by (simp add: isAssignableTo_def strict_eq_def doCheck_def)

text \<open>
  Claim C6, amended: the check passes whenever the target is the expression's own type;
  an expression of Null type is accepted against every record type and rejected, with
  the message naming both types, against Int, Float, String and Bool.
\<close>

theorem isAssignableTo_reflexive_and_Null:
  "isAssignableTo fmt x (node_type x) = Inr () \<and>
   (node_type x = NullType \<longrightarrow>
      isAssignableTo fmt x (RecordTypeInst a fs) = Inr () \<and>
      (\<forall>t \<in> {IntType, FloatType, StringType, BoolType}.
         isAssignableTo fmt x t =
           Inl (Error (Some (''Expression of type '' @ fmt NullType
                             @ '' not compatible with type '' @ fmt t)))))"
  by (cases "node_type x") (simp_all add: isAssignableTo_def strict_eq_def doCheck_def)

theorem isAssignableTo_reflexive_and_Null_witness:
  "node_type (Literal NullType ''nil'') = NullType \<and>
   isAssignableTo type_name (Literal NullType ''nil'') (RecordTypeInst 7 [(''f'', IntType)]) = Inr () \<and>
   isAssignableTo type_name (Literal NullType ''nil'') IntType
     = Inl (Error (Some ''Expression of type NullType not compatible with type IntType''))"
  using isAssignableTo_reflexive_and_Null
    [of type_name "Literal NullType ''nil''" 7 "[(''f'', IntType)]"]
  by simp

subsection \<open>Array declarations\<close>

text \<open>
  \<^verbatim>\<open>isArrayType\<close> and \<^verbatim>\<open>isArray\<close> compare a \<^verbatim>\<open>type\<close> field with the class
  \<^verbatim>\<open>ArrayType\<close> itself, which no instance and no element type is: the analysis of an
  array expression always raises, and so does that of a variable declared with an array
  type.
\<close>

lemma ArrayExpression_analyze_raises:
  "\<exists>e. analyze fmt context (ArrayExpression t sz elements) cs = Inl e"
  by (cases t) (simp_all add: ArrayType_analyze_def isArrayType_def isArray_def doCheck_def
       strict_eq_def split: sum.splits)

lemma array_VariableDeclaration_analyze_raises:
  "t \<noteq> ArrayTypeClass \<Longrightarrow>
   analyze fmt context (VariableDeclaration a i (ArrayTypeInst b t) initializer ro) cs
     = Inl (Error (Some ''Not an array type''))"
  by (cases t) (simp_all add: ArrayType_analyze_def isArrayType_def doCheck_def strict_eq_def)

text \<open>
  Claim C7 (\<^verbatim>\<open>var a : array of whole_number[3] := 0;\<close> passes analysis and generates an
  array of size 3 filled with 0). On the code the analysis of that declaration raises
  \<^verbatim>\<open>Not an array type\<close>.
\<close>

theorem analyze_array_declaration_raises:
  "analyze fmt (Some 0)
     (VariableDeclaration 1 ''a'' (ArrayTypeInst 2 (TString ''whole_number''))
        (Some (ArrayExpression (ArrayTypeInst 3 (TString ''whole_number''))
                 (Literal (TString ''whole_number'') ''3'')
                 [Literal (TString ''whole_number'') ''0''])) False) INITIAL
     = Inl (Error (Some ''Not an array type''))"
  by (simp add: ArrayType_analyze_def isArrayType_def doCheck_def strict_eq_def)

subsection \<open>Messages of the checks\<close>

text \<open>
  The checks that pass a message to \<^verbatim>\<open>doCheck\<close> raise with that message.
\<close>

lemma checks_raise_with_message:
  "node_type e \<noteq> IntType \<Longrightarrow> isInteger e = Inl (Error (Some ''Not an integer''))"
  "node_type e \<noteq> IntType \<Longrightarrow> node_type e \<noteq> FloatType \<Longrightarrow>
     isNumber e = Inl (Error (Some ''Not a number''))"
  "node_type e \<noteq> StringType \<Longrightarrow> isString e = Inl (Error (Some ''Not a string''))"
  "node_type e \<noteq> IntType \<Longrightarrow> node_type e \<noteq> StringType \<Longrightarrow>
     isIntegerOrString e = Inl (Error (Some ''Not an integer or string''))"
  "\<not> constructor_is_Func e \<Longrightarrow> isFunction e = Inl (Error (Some ''Not a function''))"
  "\<not> strict_eq (node_type e) (node_type e') \<Longrightarrow>
     expressionsHaveTheSameType e e' = Inl (Error (Some ''Types must match exactly''))"
  "field \<in> usedFields \<Longrightarrow>
     fieldHasNotBeenUsed field usedFields =
       Inl (Error (Some (''Field '' @ field @ '' already declared'')))"
  by (simp_all add: isInteger_def isNumber_def isString_def isIntegerOrString_def isFunction_def
        expressionsHaveTheSameType_def fieldHasNotBeenUsed_def doCheck_def strict_eq_simps)

text \<open>
  Claim C8 (every exported check raises with a non-empty message that names the rule).
  \<^verbatim>\<open>isArray\<close> passes no message to \<^verbatim>\<open>doCheck\<close>: on an integer literal it raises an
  error whose message is empty.
\<close>

theorem isArray_raises_without_message:
  "isArray (Literal IntType ''0'') = Inl (Error None) \<and> message (Error None) = []"
  by (simp add: isArray_def doCheck_def strict_eq_def message_def)

subsection \<open>Literal kinds\<close>

text \<open>
  Claim C9 (the kind \<^verbatim>\<open>temp\<close> is mapped to the Null type, so a literal of that kind is
  typed Null; it is the only kind string beyond the four of the spec that does not pass
  through unchanged).
\<close>

theorem getType_temp_is_Null:
  "getType (TString ''temp'') = NullType \<and>
   analyze fmt context (Literal (TString ''temp'') v) cs = Inr (Literal NullType v, cs) \<and>
   (getType (TString s) \<noteq> TString s) =
     (s \<in> {''array_of_chars'', ''whole_number'', ''not_whole_number'', ''true_or_false'',
           ''temp''})"
  by auto

theorem getType_temp_is_Null_witness:
  "analyze type_name None (Literal (TString ''temp'') ''nil'') INITIAL
     = Inr (Literal NullType ''nil'', INITIAL) \<and>
   getType (TString ''point'') = TString ''point''"
  using getType_temp_is_Null [of type_name None "''nil''" INITIAL "''point''"]
  by simp

subsection \<open>Assignment to a read-only variable\<close>

text \<open>
  The check taken alone: a target that is not an \<^verbatim>\<open>IdExp\<close> always passes, and the
  read-only error is raised exactly for an \<^verbatim>\<open>IdExp\<close> whose \<^verbatim>\<open>ref\<close> field holds a
  declaration marked read-only. The analyzer, however, stores the declaration it finds
  in the field \<^verbatim>\<open>reference\<close> and leaves \<^verbatim>\<open>ref\<close> as it was.
\<close>

lemma isNotReadOnly_other_variants:
  "\<not> constructor_is_IdExp lvalue \<Longrightarrow> isNotReadOnly lvalue = Inr ()"
  by (simp add: isNotReadOnly_def doCheck_def)

lemma isNotReadOnly_rejects_iff:
  "(isNotReadOnly lvalue = Inl (Error (Some ''Assignment to read-only variable''))) =
   (\<exists>reference d t. lvalue = IdExp reference (VNode d) t \<and> readOnly d)"
  by (cases lvalue rule: ref_readOnly.cases) (auto simp: isNotReadOnly_def doCheck_def)

lemma IdExp_analyze_keeps_ref:
  "analyze fmt context (IdExp reference ref t) cs = Inr (n, cs1) \<Longrightarrow>
   \<exists>d. n = IdExp (VNode d) ref (node_type d)"
  by (auto simp: IdExp_analyze_def split: option.splits sum.splits)

text \<open>
  Had the node kept the name in \<^verbatim>\<open>ref\<close>, the check would pass for a read-only
  declaration: a name has no \<^verbatim>\<open>readOnly\<close> property.
\<close>

lemma isNotReadOnly_name_in_ref:
  "analyze fmt (Some 0)
     (AssignmentStatement (IdExp (VString ''x'') (VString ''x'') TUndefined)
        (Literal (TString ''whole_number'') ''1'')) (x_scope True)
     = Inr (AssignmentStatement
              (IdExp (VNode (VariableDeclaration 1 ''x'' IntType None True)) (VString ''x'') IntType)
              (Literal IntType ''1''), x_scope True)"
  by (simp add: x_scope_def IdExp_analyze_def lookupValue.simps isAssignableTo_def doCheck_def
        isNotReadOnly_def strict_eq_def)

text \<open>
  Claim C10 (the read-only check rejects a target only when it is an identifier whose
  resolved declaration is marked read-only). On the code the assignment \<^verbatim>\<open>x := 1\<close> to a
  declared variable \<open>x\<close> makes the check throw a TypeError, whether \<open>x\<close> is read-only or
  not: the check never sees the resolved declaration.
\<close>

theorem isNotReadOnly_never_sees_declaration:
  "analyze fmt (Some 0)
     (AssignmentStatement (IdExp (VString ''x'') VUndefined TUndefined)
        (Literal (TString ''whole_number'') ''1'')) (x_scope False)
     = Inl (TypeError ''Cannot read properties of undefined (reading readOnly)'') \<and>
   analyze fmt (Some 0)
     (AssignmentStatement (IdExp (VString ''x'') VUndefined TUndefined)
        (Literal (TString ''whole_number'') ''1'')) (x_scope True)
     = Inl (TypeError ''Cannot read properties of undefined (reading readOnly)'')"
  by (simp add: x_scope_def IdExp_analyze_def lookupValue.simps isAssignableTo_def doCheck_def
        isNotReadOnly_def strict_eq_def)

end
